theory Spec2Isabelle
  imports Main "HOL-Library.Word" "HOL-Library.Signed_Division"
begin

section \<open>EmulatedGenyCameraDevice: data model\<close>

text \<open>
  The device class of \<^verbatim>\<open>EmulatedGenyCameraDevice.cpp\<close>, embedded as functions that take
  the object and return the status together with the updated object. The target is
  32-bit x86, so \<^verbatim>\<open>int\<close>, \<^verbatim>\<open>uint32_t\<close> and \<^verbatim>\<open>size_t\<close> are 32-bit words
  (\<open>sint\<close> reads an \<^verbatim>\<open>int\<close>), and \<^verbatim>\<open>float\<close> values, which the code only passes on,
  are kept as their 32-bit pattern. \<^verbatim>\<open>status_t\<close> is the integer the code returns:
  0 for success and an errno value otherwise.

  Every method body runs under \<^verbatim>\<open>Mutex::Autolock\<close>, so calls are atomic with respect
  to each other and a run is a sequence of calls. Logging macros have no effect on the
  object and are left out.
\<close>

type_synonym status_t = int
type_synonym int32 = "32 word"
type_synonym uint32 = "32 word"
type_synonym size_t = "32 word"
type_synonym float32 = "32 word"
type_synonym byte = "8 word"
type_synonym nsecs_t = int

definition NO_ERROR :: status_t where
  "NO_ERROR = 0"

definition EINVAL :: status_t where
  "EINVAL = 22"

definition ENOMEM :: status_t where
  "ENOMEM = 12"

datatype EmulatedCameraDeviceState =
  ECDS_CONSTRUCTED | ECDS_INITIALIZED | ECDS_CONNECTED | ECDS_STARTED

datatype camera_error =
  CAMERA_ERROR_UNKNOWN | CAMERA_ERROR_RELEASED | CAMERA_ERROR_SERVER_DIED

text \<open>
  Modelled from the spec: the result of \<^verbatim>\<open>WorkerThread::Select\<close>, an enumeration of
  the base class's header, which is not among the sources. The wait ends when its
  timeout has elapsed or when the cancellation has arrived (\<^verbatim>\<open>EXIT_THREAD\<close>, the one
  value the source names); \<open>SELECT_ERROR\<close> stands for any further value.
\<close>

datatype SelectRes = TIMEOUT | EXIT_THREAD | SELECT_ERROR

text \<open>
  The frame bookkeeping of the base class \<^verbatim>\<open>EmulatedCameraDevice\<close>, which
  \<^verbatim>\<open>commonStartDevice\<close> and \<^verbatim>\<open>commonStopDevice\<close> maintain. A buffer pointer is
  \<open>None\<close> for \<^verbatim>\<open>NULL\<close> and otherwise holds the bytes of the array it points to.
\<close>

record frame_info =
  mFrameWidth :: int32
  mFrameHeight :: int32
  mPixelFormat :: uint32
  mTotalPixels :: int32
  mFrameBufferSize :: size_t
  mCurrentFrame :: "byte list option"

text \<open>
  What the object does to its collaborators, in program order: calls on the remote
  client \<^verbatim>\<open>mGenyClient\<close>, on the base class, on the allocator, on the worker thread's
  wait, and the two notifications of the camera HAL. The notifications are sent with
  \<^verbatim>\<open>this\<close>, the object whose trace holds them.
\<close>

datatype event =
    ConnectClient int32
  | QueryConnect
  | QueryDisconnect
  | QueryInfo
  | QueryStart uint32 int32 int32
  | QueryStop
  | QueryFrame "byte list option" "byte list option" size_t int32
      float32 float32 float32 float32
  | BaseInitialize
  | CommonStartDevice int32 int32 uint32
  | CommonStopDevice
  | NewPreviewFrame int32
  | DeletePreviewFrame
  | WorkerSelect int int
  | OnNextFrameAvailable "byte list option" nsecs_t
  | OnCameraDeviceError camera_error

text \<open>
  The object: the fields of the base class that the methods read or write, whose
  declarations are in headers not among the sources and whose values are taken as they
  are, then the two fields of the class itself, then the trace.
\<close>

record device =
  mState :: EmulatedCameraDeviceState
  info :: frame_info
  mCurFrameTimestamp :: nsecs_t
  mWhiteBalanceScale :: "float32 \<times> float32 \<times> float32"
  mExposureCompensation :: float32
  mEmulatedFPS :: int32
  mDeviceName :: string
  mPreviewFrame :: "byte list option"
  trace :: "event list"

text \<open>
  What the collaborators answer during one call. They are outside the class, so every
  answer is an input of the model: the status each remote query returns, the status and
  the bookkeeping the base class leaves, the pointer \<^verbatim>\<open>new\<close> returns, what the wait
  reports, the bytes the remote has written into the two buffers, the clock.
\<close>

record init_env =
  connectClient_res :: status_t
  baseInitialize_res :: status_t

record start_env =
  commonStartDevice_res :: status_t
  commonStartDevice_info :: frame_info
  new_res :: "byte list option"
  queryStart_res :: status_t

record stop_env =
  queryStop_res :: status_t
  commonStopDevice_info :: frame_info

record frame_env =
  select_res :: SelectRes
  queryFrame_res :: status_t
  queryFrame_frame :: "byte list"
  queryFrame_preview :: "byte list"
  systemTime_res :: nsecs_t

section \<open>The base class, as far as the device uses it\<close>

text \<open>
  Modelled from the spec: the state predicates \<^verbatim>\<open>isInitialized\<close>, \<^verbatim>\<open>isConnected\<close>
  and \<^verbatim>\<open>isStarted\<close> of the base class, whose header is not among the sources. The
  states are ordered Uninitialized, Initialized, Connected, Started; a started device is
  still connected (Disconnect on a started device is refused, not a no-op, and Start on
  a started device succeeds as a no-op).
\<close>

definition isInitialized :: "device \<Rightarrow> bool" where
  "isInitialized s = (mState s \<noteq> ECDS_CONSTRUCTED)"

definition isConnected :: "device \<Rightarrow> bool" where
  "isConnected s = (mState s = ECDS_CONNECTED \<or> mState s = ECDS_STARTED)"

definition isStarted :: "device \<Rightarrow> bool" where
  "isStarted s = (mState s = ECDS_STARTED)"

text \<open>
  Modelled from the spec: \<^verbatim>\<open>EmulatedCameraDevice::Initialize()\<close>, the generic base
  initialization, not among the sources. Initialize requires the state Uninitialized and
  fails with InvalidOperation otherwise; on success the state becomes Initialized, and a
  failure leaves it unchanged. The status of a failing initialization is an input.
\<close>

definition EmulatedCameraDevice_Initialize :: "status_t \<Rightarrow> device \<Rightarrow> status_t \<times> device" where
  "EmulatedCameraDevice_Initialize r s =
     (let s1 = s\<lparr>trace := trace s @ [BaseInitialize]\<rparr> in
      if mState s \<noteq> ECDS_CONSTRUCTED then (EINVAL, s1)
      else if r = NO_ERROR then (NO_ERROR, s1\<lparr>mState := ECDS_INITIALIZED\<rparr>)
      else (r, s1))"

text \<open>
  \<^verbatim>\<open>delete[] p\<close>: nothing for a null pointer, the release of the array otherwise.
\<close>

definition delete_array :: "device \<Rightarrow> device" where
  "delete_array s =
     (case mPreviewFrame s of
        None \<Rightarrow> s
      | Some p \<Rightarrow> s\<lparr>trace := trace s @ [DeletePreviewFrame]\<rparr>)"

text \<open>
  \<^verbatim>\<open>memcpy(dst, src, n)\<close> on the bytes behind the two pointers: the first \<open>n\<close> bytes
  of \<open>dst\<close> become those of \<open>src\<close>. Reading or writing past the end of either array is
  undefined behaviour, \<open>None\<close>.
\<close>

definition memcpy :: "byte list \<Rightarrow> byte list \<Rightarrow> nat \<Rightarrow> byte list option" where
  "memcpy dst src n =
     (if n \<le> length src \<and> n \<le> length dst then Some (take n src @ drop n dst) else None)"

section \<open>The device\<close>

text \<open>
  The constructor sets \<^verbatim>\<open>mPreviewFrame\<close> to \<^verbatim>\<open>NULL\<close>; the device name is the empty
  string and nothing has been called yet. The base-class constructor, not among the
  sources, leaves the device Uninitialized; the fields it chooses besides are taken
  from \<open>b\<close>.
\<close>

definition EmulatedGenyCameraDevice :: "device \<Rightarrow> device" where
  "EmulatedGenyCameraDevice b =
     b\<lparr>mState := ECDS_CONSTRUCTED, mDeviceName := [], mPreviewFrame := None, trace := []\<rparr>"

definition destructor :: "device \<Rightarrow> device" where
  "destructor s = (if mPreviewFrame s \<noteq> None then delete_array s else s)"

definition Initialize :: "init_env \<Rightarrow> string \<Rightarrow> int32 \<Rightarrow> device \<Rightarrow> status_t \<times> device" where
  "Initialize e device_name local_srv_port s =
     (let s1 = s\<lparr>trace := trace s @ [ConnectClient local_srv_port]\<rparr>;
          res = connectClient_res e
      in if res \<noteq> NO_ERROR then (res, s1)
         else
           (let (res, s2) = EmulatedCameraDevice_Initialize (baseInitialize_res e) s1
            in if res = NO_ERROR then (res, s2\<lparr>mDeviceName := device_name\<rparr>)
               else (res, s2\<lparr>trace := trace s2 @ [QueryDisconnect]\<rparr>)))"

text \<open>
  \<^verbatim>\<open>getDeviceInfo\<close> hands back the status of the query and the string the remote stored
  through \<^verbatim>\<open>p_info_str\<close>, if it was asked.
\<close>

definition getDeviceInfo ::
  "status_t \<times> string \<Rightarrow> device \<Rightarrow> (status_t \<times> string option) \<times> device" where
  "getDeviceInfo q s =
     (if \<not> isInitialized s then ((EINVAL, None), s)
      else ((fst q, Some (snd q)), s\<lparr>trace := trace s @ [QueryInfo]\<rparr>))"

definition connectDevice :: "status_t \<Rightarrow> device \<Rightarrow> status_t \<times> device" where
  "connectDevice queryConnect_res s =
     (if \<not> isInitialized s then (EINVAL, s)
      else if isConnected s then (NO_ERROR, s)
      else
        (let res = queryConnect_res;
             s1 = s\<lparr>trace := trace s @ [QueryConnect]\<rparr>
         in if res = NO_ERROR then (res, s1\<lparr>mState := ECDS_CONNECTED\<rparr>)
            else (res, s1)))"

definition disconnectDevice :: "status_t \<Rightarrow> device \<Rightarrow> status_t \<times> device" where
  "disconnectDevice queryDisconnect_res s =
     (if \<not> isConnected s then (NO_ERROR, s)
      else if isStarted s then (EINVAL, s)
      else
        (let res = queryDisconnect_res;
             s1 = s\<lparr>trace := trace s @ [QueryDisconnect]\<rparr>
         in if res = NO_ERROR then (res, s1\<lparr>mState := ECDS_INITIALIZED\<rparr>)
            else (res, s1)))"

definition startDevice ::
  "start_env \<Rightarrow> int32 \<Rightarrow> int32 \<Rightarrow> uint32 \<Rightarrow> device \<Rightarrow> status_t \<times> device" where
  "startDevice e width height pix_fmt s =
     (if \<not> isConnected s then (EINVAL, s)
      else if isStarted s then (NO_ERROR, s)
      else
        (let res = commonStartDevice_res e;
             s1 = s\<lparr>info := commonStartDevice_info e,
                    trace := trace s @ [CommonStartDevice width height pix_fmt]\<rparr>
         in if res \<noteq> NO_ERROR then (res, s1)
            else
              (let s2 = s1\<lparr>mPreviewFrame := new_res e,
                           trace := trace s1 @ [NewPreviewFrame (mTotalPixels (info s1))]\<rparr>
               in if mPreviewFrame s2 = None then (ENOMEM, s2)
                  else
                    (let res = queryStart_res e;
                         s3 = s2\<lparr>trace := trace s2 @
                                [QueryStart (mPixelFormat (info s2)) (mFrameWidth (info s2))
                                   (mFrameHeight (info s2))]\<rparr>
                     in if res = NO_ERROR then (res, s3\<lparr>mState := ECDS_STARTED\<rparr>)
                        else (res, s3)))))"

definition stopDevice :: "stop_env \<Rightarrow> device \<Rightarrow> status_t \<times> device" where
  "stopDevice e s =
     (if \<not> isStarted s then (NO_ERROR, s)
      else
        (let res = queryStop_res e;
             s1 = s\<lparr>trace := trace s @ [QueryStop]\<rparr>
         in if res = NO_ERROR then
              (let s2 = (if mPreviewFrame s1 = None
                         then (delete_array s1)\<lparr>mPreviewFrame := None\<rparr>
                         else s1);
                   s3 = s2\<lparr>info := commonStopDevice_info e,
                          trace := trace s2 @ [CommonStopDevice]\<rparr>
               in (res, s3\<lparr>mState := ECDS_CONNECTED\<rparr>))
            else (res, s1)))"

text \<open>
  \<^verbatim>\<open>getCurrentPreviewFrame(buffer)\<close>: the status and the bytes behind \<open>buffer\<close>
  afterwards. The length \<^verbatim>\<open>mTotalPixels * 4\<close> is an \<^verbatim>\<open>int\<close> product converted to
  \<^verbatim>\<open>size_t\<close>. With no preview frame the answer is the base class's, whatever it is.
\<close>

definition getCurrentPreviewFrame ::
  "status_t \<times> byte list \<Rightarrow> byte list \<Rightarrow> device \<Rightarrow> (status_t \<times> byte list) option" where
  "getCurrentPreviewFrame base_res buffer s =
     (case mPreviewFrame s of
        Some p \<Rightarrow>
          (case memcpy buffer p (unat (mTotalPixels (info s) * 4)) of
             None \<Rightarrow> None
           | Some b \<Rightarrow> Some (0, b))
      | None \<Rightarrow> Some base_res)"

text \<open>
  One pass of the worker thread. \<^verbatim>\<open>1000000 / mEmulatedFPS\<close> is C's truncating
  division; dividing by zero is undefined behaviour, \<open>None\<close>. The remote writes through
  the two pointers it is given. The result says whether the thread goes on.
\<close>

definition inWorkerThread :: "frame_env \<Rightarrow> device \<Rightarrow> (bool \<times> device) option" where
  "inWorkerThread e s =
     (if mEmulatedFPS s = 0 then None
      else
        (let s1 = s\<lparr>trace := trace s @
                     [WorkerSelect (- 1) (1000000 sdiv sint (mEmulatedFPS s))]\<rparr>
         in if select_res e = EXIT_THREAD then Some (False, s1)
            else
              (let s2 = s1\<lparr>info := (info s1)\<lparr>mCurrentFrame :=
                              map_option (\<lambda>old. queryFrame_frame e) (mCurrentFrame (info s1))\<rparr>,
                           mPreviewFrame :=
                              map_option (\<lambda>old. queryFrame_preview e) (mPreviewFrame s1),
                           trace := trace s1 @
                             [QueryFrame (mCurrentFrame (info s1)) (mPreviewFrame s1)
                                (mFrameBufferSize (info s1)) (mTotalPixels (info s1) * 4)
                                (fst (mWhiteBalanceScale s1))
                                (fst (snd (mWhiteBalanceScale s1)))
                                (snd (snd (mWhiteBalanceScale s1)))
                                (mExposureCompensation s1)]\<rparr>;
                   query_res = queryFrame_res e
               in if query_res = NO_ERROR then
                    (let s3 = s2\<lparr>mCurFrameTimestamp := systemTime_res e\<rparr>
                     in Some (True, s3\<lparr>trace := trace s3 @
                          [OnNextFrameAvailable (mCurrentFrame (info s3))
                             (mCurFrameTimestamp s3)]\<rparr>))
                  else
                    Some (False, s2\<lparr>trace := trace s2 @
                      [OnCameraDeviceError CAMERA_ERROR_SERVER_DIED]\<rparr>))))"

text \<open>
  Modelled from the spec: the loop of the base class's \<^verbatim>\<open>WorkerThread\<close>, not among the
  sources. It calls \<^verbatim>\<open>inWorkerThread\<close> again as long as the last call answered
  \<^verbatim>\<open>true\<close> and exits at the first \<^verbatim>\<open>false\<close>. The list holds what the collaborators
  answer in the passes observed so far; the flag of the result says whether the thread
  is still running after them.
\<close>

fun workerLoop :: "frame_env list \<Rightarrow> device \<Rightarrow> (bool \<times> device) option" where
  "workerLoop [] s = Some (True, s)"
| "workerLoop (e # es) s =
     (case inWorkerThread e s of
        None \<Rightarrow> None
      | Some (go_on, s') \<Rightarrow> if go_on then workerLoop es s' else Some (False, s'))"

text \<open>The timestamps of the frame-ready notifications of a trace, in order.\<close>

fun timestamps :: "event list \<Rightarrow> nsecs_t list" where
  "timestamps [] = []"
| "timestamps (OnNextFrameAvailable f t # evs) = t # timestamps evs"
| "timestamps (ev # evs) = timestamps evs"

text \<open>The kinds of the device-error notifications of a trace, in order.\<close>

fun device_errors :: "event list \<Rightarrow> camera_error list" where
  "device_errors [] = []"
| "device_errors (OnCameraDeviceError k # evs) = k # device_errors evs"
| "device_errors (ev # evs) = device_errors evs"

section \<open>Sequences of calls\<close>

datatype lifecycle_call =
    CallInitialize init_env string int32
  | CallConnect status_t
  | CallDisconnect status_t
  | CallStart start_env int32 int32 uint32
  | CallStop stop_env

fun call :: "lifecycle_call \<Rightarrow> device \<Rightarrow> status_t \<times> device" where
  "call (CallInitialize e name port) s = Initialize e name port s"
| "call (CallConnect r) s = connectDevice r s"
| "call (CallDisconnect r) s = disconnectDevice r s"
| "call (CallStart e w h f) s = startDevice e w h f s"
| "call (CallStop e) s = stopDevice e s"

fun run :: "lifecycle_call list \<Rightarrow> device \<Rightarrow> device" where
  "run [] s = s"
| "run (c # cs) s = run cs (snd (call c s))"

text \<open>
  Everything that can happen to a device between its construction and its destruction:
  a lifecycle call, an information query, or a pass of the worker thread.
\<close>

datatype operation =
    Lifecycle lifecycle_call
  | GetDeviceInfo "status_t \<times> string"
  | WorkerPass frame_env

fun exec :: "operation list \<Rightarrow> device \<Rightarrow> device option" where
  "exec [] s = Some s"
| "exec (Lifecycle c # ops) s = exec ops (snd (call c s))"
| "exec (GetDeviceInfo q # ops) s = exec ops (snd (getDeviceInfo q s))"
| "exec (WorkerPass e # ops) s =
     (case inWorkerThread e s of None \<Rightarrow> None | Some (go_on, s') \<Rightarrow> exec ops s')"

fun is_start :: "lifecycle_call \<Rightarrow> bool" where
  "is_start (CallStart e w h f) = True"
| "is_start c = False"

section \<open>The transition table of the specification\<close>

text \<open>
  The lifecycle as the specification words it (section 4.1), on the four states alone;
  \<open>table_step\<close> is one row of the table, with its column for the failed precondition.
  A call carries the collaborators' answers, as above. The results are the
  specification's: success, InvalidOperation for a call the state forbids,
  ResourceExhausted for a failed allocation, and the failure a collaborator reports.
  A transition that fails leaves the state as it was. For Connect a started device is
  already connected, and for Disconnect a device that is not yet connected is already
  disconnected.
\<close>

datatype DeviceState = Uninitialized | Initialized | Connected | Started

datatype result =
    Success
  | InvalidOperation
  | ResourceExhausted
  | RemoteUnavailable status_t
  | BaseFailure status_t

fun abs_state :: "EmulatedCameraDeviceState \<Rightarrow> DeviceState" where
  "abs_state ECDS_CONSTRUCTED = Uninitialized"
| "abs_state ECDS_INITIALIZED = Initialized"
| "abs_state ECDS_CONNECTED = Connected"
| "abs_state ECDS_STARTED = Started"

fun status_of :: "result \<Rightarrow> status_t" where
  "status_of Success = NO_ERROR"
| "status_of InvalidOperation = EINVAL"
| "status_of ResourceExhausted = ENOMEM"
| "status_of (RemoteUnavailable r) = r"
| "status_of (BaseFailure r) = r"

fun table_step :: "lifecycle_call \<Rightarrow> DeviceState \<Rightarrow> result \<times> DeviceState" where
  "table_step (CallInitialize e name port) st =
     (if st = Uninitialized then
        (if connectClient_res e \<noteq> NO_ERROR
           then (RemoteUnavailable (connectClient_res e), Uninitialized)
         else if baseInitialize_res e \<noteq> NO_ERROR
           then (BaseFailure (baseInitialize_res e), Uninitialized)
         else (Success, Initialized))
      else (InvalidOperation, st))"
| "table_step (CallConnect r) st =
     (if st = Initialized then
        (if r = NO_ERROR then (Success, Connected) else (RemoteUnavailable r, Initialized))
      else if st = Uninitialized then (InvalidOperation, st)
      else (Success, st))"
| "table_step (CallDisconnect r) st =
     (if st = Connected then
        (if r = NO_ERROR then (Success, Initialized) else (RemoteUnavailable r, Connected))
      else if st = Started then (InvalidOperation, st)
      else (Success, st))"
| "table_step (CallStart e w h f) st =
     (if st = Connected then
        (if commonStartDevice_res e \<noteq> NO_ERROR
           then (BaseFailure (commonStartDevice_res e), Connected)
         else if new_res e = None then (ResourceExhausted, Connected)
         else if queryStart_res e \<noteq> NO_ERROR
           then (RemoteUnavailable (queryStart_res e), Connected)
         else (Success, Started))
      else if st = Started then (Success, st)
      else (InvalidOperation, st))"
| "table_step (CallStop e) st =
     (if st = Started then
        (if queryStop_res e = NO_ERROR then (Success, Connected)
         else (RemoteUnavailable (queryStop_res e), Started))
      else (Success, st))"

fun table_run :: "lifecycle_call list \<Rightarrow> DeviceState \<Rightarrow> DeviceState" where
  "table_run [] st = st"
| "table_run (c # cs) st = table_run cs (snd (table_step c st))"

text \<open>
  The status of opening the session to the remote service, which Initialize alone does.
\<close>

fun session_open_status :: "lifecycle_call \<Rightarrow> status_t" where
  "session_open_status (CallInitialize e name port) = connectClient_res e"
| "session_open_status c = NO_ERROR"

text \<open>The calls a state forbids, and the calls that find their goal already reached.\<close>

fun forbidden :: "lifecycle_call \<Rightarrow> DeviceState \<Rightarrow> bool" where
  "forbidden (CallInitialize e name port) st = (st \<noteq> Uninitialized)"
| "forbidden (CallConnect r) st = (st = Uninitialized)"
| "forbidden (CallDisconnect r) st = (st = Started)"
| "forbidden (CallStart e w h f) st = (st = Uninitialized \<or> st = Initialized)"
| "forbidden (CallStop e) st = False"

fun already_there :: "lifecycle_call \<Rightarrow> DeviceState \<Rightarrow> bool" where
  "already_there (CallInitialize e name port) st = False"
| "already_there (CallConnect r) st = (st = Connected \<or> st = Started)"
| "already_there (CallDisconnect r) st = (st = Uninitialized \<or> st = Initialized)"
| "already_there (CallStart e w h f) st = (st = Started)"
| "already_there (CallStop e) st = (st \<noteq> Started)"

section \<open>A small run\<close>

text \<open>
  A device at 50 frames per second, and the answers of collaborators that all succeed,
  for frames of two pixels by one.
\<close>

definition info0 :: frame_info where
  "info0 = \<lparr>mFrameWidth = 0, mFrameHeight = 0, mPixelFormat = 0, mTotalPixels = 0,
     mFrameBufferSize = 0, mCurrentFrame = None\<rparr>"

definition info1 :: frame_info where
  "info1 = \<lparr>mFrameWidth = 2, mFrameHeight = 1, mPixelFormat = 7, mTotalPixels = 2,
     mFrameBufferSize = 3, mCurrentFrame = Some [0, 0, 0]\<rparr>"

definition base0 :: device where
  "base0 =
     \<lparr>mState = ECDS_CONSTRUCTED, info = info0, mCurFrameTimestamp = 0,
      mWhiteBalanceScale = (1, 1, 1), mExposureCompensation = 0, mEmulatedFPS = 50,
      mDeviceName = [], mPreviewFrame = None, trace = []\<rparr>"

definition dev0 :: device where
  "dev0 = EmulatedGenyCameraDevice base0"

definition init_ok :: init_env where
  "init_ok = \<lparr>connectClient_res = 0, baseInitialize_res = 0\<rparr>"

definition start_ok :: start_env where
  "start_ok = \<lparr>commonStartDevice_res = 0, commonStartDevice_info = info1,
     new_res = Some [0, 0, 0, 0, 0, 0, 0, 0], queryStart_res = 0\<rparr>"

definition stop_ok :: stop_env where
  "stop_ok = \<lparr>queryStop_res = 0, commonStopDevice_info = info0\<rparr>"

definition dev_initialized :: device where
  "dev_initialized = snd (Initialize init_ok ''cam'' 5555 dev0)"

definition dev_connected :: device where
  "dev_connected = snd (connectDevice 0 dev_initialized)"

definition dev_started :: device where
  "dev_started = snd (startDevice start_ok 2 1 7 dev_connected)"

text \<open>
  Two starts that fail after the first steps: the remote refuses to open the capture
  (status 5), or the allocation returns \<^verbatim>\<open>NULL\<close>.
\<close>

definition start_remote_fails :: start_env where
  "start_remote_fails = \<lparr>commonStartDevice_res = 0, commonStartDevice_info = info1,
     new_res = Some [0, 0, 0, 0, 0, 0, 0, 0], queryStart_res = 5\<rparr>"

definition start_alloc_fails :: start_env where
  "start_alloc_fails = \<lparr>commonStartDevice_res = 0, commonStartDevice_info = info1,
     new_res = None, queryStart_res = 0\<rparr>"

text \<open>
  Passes of the worker thread: two frames pulled 20 ms apart, a pull that fails, and the
  exit message.
\<close>

definition frame_ok :: frame_env where
  "frame_ok = \<lparr>select_res = TIMEOUT, queryFrame_res = 0, queryFrame_frame = [1, 2, 3],
     queryFrame_preview = [1, 2, 3, 4, 5, 6, 7, 8], systemTime_res = 1000\<rparr>"

definition frame_ok2 :: frame_env where
  "frame_ok2 = \<lparr>select_res = TIMEOUT, queryFrame_res = 0, queryFrame_frame = [4, 5, 6],
     queryFrame_preview = [8, 7, 6, 5, 4, 3, 2, 1], systemTime_res = 21000\<rparr>"

definition frame_fails :: frame_env where
  "frame_fails = \<lparr>select_res = TIMEOUT, queryFrame_res = 5, queryFrame_frame = [0, 0, 0],
     queryFrame_preview = [0, 0, 0, 0, 0, 0, 0, 0], systemTime_res = 41000\<rparr>"

definition frame_exit :: frame_env where
  "frame_exit = \<lparr>select_res = EXIT_THREAD, queryFrame_res = 0, queryFrame_frame = [],
     queryFrame_preview = [], systemTime_res = 61000\<rparr>"

text \<open>A remote service that cannot be reached (status 111), and the whole lifecycle.\<close>

definition init_unreachable :: init_env where
  "init_unreachable = \<lparr>connectClient_res = 111, baseInitialize_res = 0\<rparr>"

definition full_cycle :: "lifecycle_call list" where
  "full_cycle =
     [CallInitialize init_ok ''cam'' 5555, CallConnect 0, CallStart start_ok 2 1 7,
      CallStop stop_ok, CallDisconnect 0]"

text \<open>
  The operations that start the device, the started device after one frame, and a stop
  after which the base class keeps the frame geometry.
\<close>

definition started_ops :: "operation list" where
  "started_ops =
     [Lifecycle (CallInitialize init_ok ''cam'' 5555), Lifecycle (CallConnect 0),
      Lifecycle (CallStart start_ok 2 1 7)]"

definition dev_streaming :: device where
  "dev_streaming = snd (the (inWorkerThread frame_ok dev_started))"

definition stop_keep :: stop_env where
  "stop_keep = \<lparr>queryStop_res = 0, commonStopDevice_info = info1\<rparr>"

section \<open>Evaluating the small run\<close>

lemmas status_defs = NO_ERROR_def EINVAL_def ENOMEM_def

lemmas state_preds = isInitialized_def isConnected_def isStarted_def

lemma dev_initialized_eq:
  "dev_initialized =
     \<lparr>mState = ECDS_INITIALIZED, info = info0, mCurFrameTimestamp = 0,
      mWhiteBalanceScale = (1, 1, 1), mExposureCompensation = 0, mEmulatedFPS = 50,
      mDeviceName = ''cam'', mPreviewFrame = None,
      trace = [ConnectClient 5555, BaseInitialize]\<rparr>"
  by (simp add: dev_initialized_def dev0_def base0_def EmulatedGenyCameraDevice_def Initialize_def
      EmulatedCameraDevice_Initialize_def init_ok_def NO_ERROR_def Let_def)

lemma dev_connected_eq:
  "dev_connected =
     \<lparr>mState = ECDS_CONNECTED, info = info0, mCurFrameTimestamp = 0,
      mWhiteBalanceScale = (1, 1, 1), mExposureCompensation = 0, mEmulatedFPS = 50,
      mDeviceName = ''cam'', mPreviewFrame = None,
      trace = [ConnectClient 5555, BaseInitialize, QueryConnect]\<rparr>"
  by (simp add: dev_connected_def dev_initialized_eq connectDevice_def state_preds
      NO_ERROR_def Let_def)

lemma dev_started_eq:
  "dev_started =
     \<lparr>mState = ECDS_STARTED, info = info1, mCurFrameTimestamp = 0,
      mWhiteBalanceScale = (1, 1, 1), mExposureCompensation = 0, mEmulatedFPS = 50,
      mDeviceName = ''cam'', mPreviewFrame = Some [0, 0, 0, 0, 0, 0, 0, 0],
      trace = [ConnectClient 5555, BaseInitialize, QueryConnect,
               CommonStartDevice 2 1 7, NewPreviewFrame 2, QueryStart 7 2 1]\<rparr>"
  by (simp add: dev_started_def dev_connected_eq startDevice_def state_preds
      start_ok_def info1_def NO_ERROR_def Let_def)

section \<open>Start on a started device\<close>

text \<open>
  Claim C4. Start on a device that is already Started returns success and leaves the
  whole object as it was: no field changes and the trace gains no event, so no buffer is
  allocated, the remote is not asked to open the capture again and nothing is launched.
  In particular a Start that follows a successful Start, with no Stop between them and
  whatever its arguments and the collaborators' answers are, is such a call.
\<close>

theorem startDevice_twice:
  "(mState s = ECDS_STARTED \<longrightarrow> startDevice e w h f s = (NO_ERROR, s)) \<and>
   (fst (startDevice ea wa ha fa s) = NO_ERROR \<longrightarrow>
      startDevice eb wb hb fb (snd (startDevice ea wa ha fa s)) =
        (NO_ERROR, snd (startDevice ea wa ha fa s)))"
  by (auto simp: startDevice_def state_preds Let_def status_defs)

theorem startDevice_twice_witness:
  "mState dev_started = ECDS_STARTED \<and>
   startDevice start_ok 2 1 7 dev_started = (NO_ERROR, dev_started) \<and>
   fst (startDevice start_ok 2 1 7 dev_connected) = NO_ERROR \<and>
   startDevice start_ok 4 4 7 (snd (startDevice start_ok 2 1 7 dev_connected)) =
     (NO_ERROR, snd (startDevice start_ok 2 1 7 dev_connected))"
proof -
  have h1: "mState dev_started = ECDS_STARTED"
    by (simp add: dev_started_eq)
  have h2: "fst (startDevice start_ok 2 1 7 dev_connected) = NO_ERROR"
    by (simp add: dev_connected_eq startDevice_def state_preds start_ok_def NO_ERROR_def Let_def)
  from startDevice_twice [where s = dev_started and e = start_ok and w = 2 and h = 1 and f = 7] h1
  have c1: "startDevice start_ok 2 1 7 dev_started = (NO_ERROR, dev_started)"
    by blast
  from startDevice_twice [where s = dev_connected and ea = start_ok and wa = 2 and ha = 1
      and fa = 7 and eb = start_ok and wb = 4 and hb = 4 and fb = 7] h2
  have c2: "startDevice start_ok 4 4 7 (snd (startDevice start_ok 2 1 7 dev_connected)) =
     (NO_ERROR, snd (startDevice start_ok 2 1 7 dev_connected))"
    by blast
  from h1 h2 c1 c2 show ?thesis by blast
qed

section \<open>Stop and the preview frame\<close>

text \<open>
  Claim C1 says that a successful Stop of a started device releases the preview frame
  buffer and makes the device Connected. Evaluated on the started device of the small
  run, with a remote that stops successfully: Stop returns success and the device is
  Connected, but the preview frame pointer is the same non-null buffer as before and no
  \<^verbatim>\<open>delete[]\<close> of it has happened. The release in \<^verbatim>\<open>stopDevice\<close> is guarded by
  \<^verbatim>\<open>mPreviewFrame == NULL\<close>, so it only ever runs on a null pointer.
\<close>

theorem stopDevice_keeps_preview_frame:
  "mState dev_started = ECDS_STARTED \<and>
   mPreviewFrame dev_started = Some [0, 0, 0, 0, 0, 0, 0, 0] \<and>
   fst (stopDevice stop_ok dev_started) = NO_ERROR \<and>
   mState (snd (stopDevice stop_ok dev_started)) = ECDS_CONNECTED \<and>
   mPreviewFrame (snd (stopDevice stop_ok dev_started)) = Some [0, 0, 0, 0, 0, 0, 0, 0] \<and>
   DeletePreviewFrame \<notin> set (trace (snd (stopDevice stop_ok dev_started)))"
  by (simp add: dev_started_eq stopDevice_def isStarted_def stop_ok_def delete_array_def
      NO_ERROR_def Let_def)

section \<open>A Start that fails half-way\<close>

text \<open>
  Claim C3 says that a Start failing after partial progress rolls every partial effect
  back. Evaluated on the connected device of the small run. When the remote refuses to
  open the capture, Start returns the remote's status and the device stays Connected,
  but the preview frame allocated on the way is still held and was never released, the
  base bookkeeping is the new one, and \<^verbatim>\<open>commonStopDevice\<close> was not called: the trace
  ends with the three calls of the attempt. When the allocation fails, Start returns
  \<^verbatim>\<open>ENOMEM\<close> and the device stays Connected, again with the new base bookkeeping and
  no call of \<^verbatim>\<open>commonStopDevice\<close>.
\<close>

theorem startDevice_failure_not_rolled_back:
  "mState dev_connected = ECDS_CONNECTED \<and>
   mPreviewFrame dev_connected = None \<and>
   info dev_connected = info0 \<and>
   fst (startDevice start_remote_fails 2 1 7 dev_connected) = 5 \<and>
   mState (snd (startDevice start_remote_fails 2 1 7 dev_connected)) = ECDS_CONNECTED \<and>
   mPreviewFrame (snd (startDevice start_remote_fails 2 1 7 dev_connected)) =
     Some [0, 0, 0, 0, 0, 0, 0, 0] \<and>
   info (snd (startDevice start_remote_fails 2 1 7 dev_connected)) = info1 \<and>
   trace (snd (startDevice start_remote_fails 2 1 7 dev_connected)) =
     trace dev_connected @ [CommonStartDevice 2 1 7, NewPreviewFrame 2, QueryStart 7 2 1] \<and>
   fst (startDevice start_alloc_fails 2 1 7 dev_connected) = ENOMEM \<and>
   mState (snd (startDevice start_alloc_fails 2 1 7 dev_connected)) = ECDS_CONNECTED \<and>
   info (snd (startDevice start_alloc_fails 2 1 7 dev_connected)) = info1 \<and>
   trace (snd (startDevice start_alloc_fails 2 1 7 dev_connected)) =
     trace dev_connected @ [CommonStartDevice 2 1 7, NewPreviewFrame 2]"
  by (simp add: dev_connected_eq startDevice_def state_preds start_remote_fails_def
      start_alloc_fails_def info1_def NO_ERROR_def Let_def)

section \<open>Reading the preview frame\<close>

lemma unat_times_4:
  assumes "0 \<le> sint (n :: 32 word)" and "sint n * 4 < 2 ^ 31"
  shows "unat (n * 4) = 4 * nat (sint n)"
proof -
  have b: "sint n * 4 < 2147483648" using assms(2) by simp
  then have "sint n < 4294967296" using assms(1) by linarith
  then have su: "uint n = sint n"
    using assms(1) by (simp add: uint_sint take_bit_int_eq_self)
  have un: "unat n = nat (sint n)"
    using su by (simp add: unat_eq_nat_uint)
  have small: "nat (sint n) * 4 < 4294967296"
    using assms(1) b by linarith
  have "unat (n * 4) = (unat n * unat (4 :: 32 word)) mod 2 ^ 32"
    by (simp add: unat_word_ariths)
  also have "\<dots> = nat (sint n) * 4" using small un by simp
  finally show ?thesis by simp
qed

text \<open>
  Claim C8. When the preview frame exists, \<^verbatim>\<open>getCurrentPreviewFrame\<close> returns 0 and
  the destination holds the first \<open>4 * mTotalPixels\<close> bytes of the preview frame,
  followed by its own bytes from there on: exactly that many bytes were copied. This is
  for a pixel count that is not negative and whose product with 4 fits an \<^verbatim>\<open>int\<close>,
  and for arrays that hold that many bytes; outside of these the call has undefined
  behaviour. When the preview frame is null, the call returns what the base class
  returns, status and bytes, and nothing else.
\<close>

theorem getCurrentPreviewFrame_copies:
  "(mPreviewFrame s = Some p \<and> 0 \<le> sint (mTotalPixels (info s)) \<and>
    sint (mTotalPixels (info s)) * 4 < 2 ^ 31 \<and>
    4 * nat (sint (mTotalPixels (info s))) \<le> length p \<and>
    4 * nat (sint (mTotalPixels (info s))) \<le> length buffer \<longrightarrow>
      getCurrentPreviewFrame base_res buffer s =
        Some (0, take (4 * nat (sint (mTotalPixels (info s)))) p @
                 drop (4 * nat (sint (mTotalPixels (info s)))) buffer)) \<and>
   (mPreviewFrame s = None \<longrightarrow> getCurrentPreviewFrame base_res buffer s = Some base_res)"
  by (simp add: getCurrentPreviewFrame_def memcpy_def unat_times_4)

theorem getCurrentPreviewFrame_copies_witness:
  "mPreviewFrame dev_started = Some [0, 0, 0, 0, 0, 0, 0, 0] \<and>
   sint (mTotalPixels (info dev_started)) = 2 \<and>
   getCurrentPreviewFrame (22, [7, 7, 7]) [1, 2, 3, 4, 5, 6, 7, 8, 9] dev_started =
     Some (0, [0, 0, 0, 0, 0, 0, 0, 0, 9]) \<and>
   mPreviewFrame dev_connected = None \<and>
   getCurrentPreviewFrame (22, [7, 7, 7]) [1, 2, 3] dev_connected = Some (22, [7, 7, 7])"
proof -
  have h1: "mPreviewFrame dev_started = Some [0, 0, 0, 0, 0, 0, 0, 0]"
    by (simp add: dev_started_eq)
  have h2: "sint (mTotalPixels (info dev_started)) = 2"
    by (simp add: dev_started_eq info1_def)
  have h3: "mPreviewFrame dev_connected = None"
    by (simp add: dev_connected_eq)
  have h4: "4 * nat (sint (mTotalPixels (info dev_started))) = 8"
    by (simp add: h2)
  have pre: "mPreviewFrame dev_started = Some [0, 0, 0, 0, 0, 0, 0, 0] \<and>
      0 \<le> sint (mTotalPixels (info dev_started)) \<and>
      sint (mTotalPixels (info dev_started)) * 4 < 2 ^ 31 \<and>
      4 * nat (sint (mTotalPixels (info dev_started))) \<le> length [0 :: byte, 0, 0, 0, 0, 0, 0, 0] \<and>
      4 * nat (sint (mTotalPixels (info dev_started))) \<le> length [1 :: byte, 2, 3, 4, 5, 6, 7, 8, 9]"
    using h1 by (simp add: h2)
  from getCurrentPreviewFrame_copies [where s = dev_started and p = "[0, 0, 0, 0, 0, 0, 0, 0]"
      and buffer = "[1, 2, 3, 4, 5, 6, 7, 8, 9]" and base_res = "(22, [7, 7, 7])"] pre
  have c1: "getCurrentPreviewFrame (22, [7, 7, 7]) [1, 2, 3, 4, 5, 6, 7, 8, 9] dev_started =
      Some (0, take (4 * nat (sint (mTotalPixels (info dev_started)))) [0, 0, 0, 0, 0, 0, 0, 0] @
               drop (4 * nat (sint (mTotalPixels (info dev_started)))) [1, 2, 3, 4, 5, 6, 7, 8, 9])"
    by blast
  from getCurrentPreviewFrame_copies [where s = dev_connected and buffer = "[1, 2, 3]"
      and base_res = "(22, [7, 7, 7])"] h3
  have c2: "getCurrentPreviewFrame (22, [7, 7, 7]) [1, 2, 3] dev_connected = Some (22, [7, 7, 7])"
    by blast
  have c1': "getCurrentPreviewFrame (22, [7, 7, 7]) [1, 2, 3, 4, 5, 6, 7, 8, 9] dev_started =
     Some (0, [0, 0, 0, 0, 0, 0, 0, 0, 9])"
    unfolding c1 h4 by simp
  from h1 h2 h3 c1' c2 show ?thesis by blast
qed

section \<open>The worker thread\<close>

lemma timestamps_append: "timestamps (xs @ ys) = timestamps xs @ timestamps ys"
  by (induction xs rule: timestamps.induct) simp_all

lemma device_errors_append: "device_errors (xs @ ys) = device_errors xs @ device_errors ys"
  by (induction xs rule: device_errors.induct) simp_all

lemma pass_ok:
  assumes "mEmulatedFPS s \<noteq> 0" and "select_res e \<noteq> EXIT_THREAD" and "queryFrame_res e = NO_ERROR"
  shows "\<exists>s' evs. inWorkerThread e s = Some (True, s') \<and> mState s' = mState s \<and>
           mEmulatedFPS s' = mEmulatedFPS s \<and> trace s' = trace s @ evs \<and>
           device_errors evs = [] \<and> timestamps evs = [systemTime_res e]"
  using assms by (simp add: inWorkerThread_def Let_def)

lemma pass_fail:
  assumes "mEmulatedFPS s \<noteq> 0" and "select_res e \<noteq> EXIT_THREAD" and "queryFrame_res e \<noteq> NO_ERROR"
  shows "\<exists>s' evs. inWorkerThread e s = Some (False, s') \<and> mState s' = mState s \<and>
           trace s' = trace s @ evs @ [OnCameraDeviceError CAMERA_ERROR_SERVER_DIED] \<and>
           device_errors evs = [] \<and> timestamps evs = []"
proof -
  let ?evs = "[WorkerSelect (- 1) (1000000 sdiv sint (mEmulatedFPS s)),
     QueryFrame (mCurrentFrame (info s)) (mPreviewFrame s)
       (mFrameBufferSize (info s)) (mTotalPixels (info s) * 4)
       (fst (mWhiteBalanceScale s)) (fst (snd (mWhiteBalanceScale s)))
       (snd (snd (mWhiteBalanceScale s))) (mExposureCompensation s)]"
  obtain s' where s': "inWorkerThread e s = Some (False, s')"
    "mState s' = mState s"
    "trace s' = trace s @ ?evs @ [OnCameraDeviceError CAMERA_ERROR_SERVER_DIED]"
    using assms by (simp add: inWorkerThread_def Let_def)
  have "device_errors ?evs = []" "timestamps ?evs = []" by simp_all
  with s' show ?thesis by blast
qed

lemma pass_any:
  assumes "inWorkerThread e s = Some (b, s')"
  shows "mState s' = mState s \<and> mEmulatedFPS s' = mEmulatedFPS s \<and>
         (mPreviewFrame s' = None) = (mPreviewFrame s = None) \<and>
         (\<exists>evs. trace s' = trace s @ evs \<and> DeletePreviewFrame \<notin> set evs \<and>
            (timestamps evs = [] \<or> timestamps evs = [systemTime_res e]))"
  using assms by (auto simp: inWorkerThread_def Let_def split: if_splits)


text \<open>
  Claim C6. One pass of the worker thread, for a frame rate that is not zero. It first
  waits on no descriptor with a timeout of \<open>1000000 / mEmulatedFPS\<close> microseconds, the
  truncating division, which for a positive rate is the quotient. If the wait reports
  the exit message, the pass does nothing else and the thread stops. If the wait times
  out, the next call is the pull, with the frame buffer, the preview frame, the size of
  the frame buffer, four times the pixel count, the three white-balance factors and the
  exposure compensation, and the thread goes on exactly if the pull succeeds. After a
  successful pull the clock value is stored as the frame's timestamp and the frame-ready
  notification carries the frame buffer, as the pull left it, and that timestamp. The
  thread stops only on the exit message or on a failed pull.
\<close>

theorem inWorkerThread_pass:
  assumes "mEmulatedFPS s \<noteq> 0"
  shows
    "(let sel = WorkerSelect (- 1) (1000000 sdiv sint (mEmulatedFPS s));
          pull = QueryFrame (mCurrentFrame (info s)) (mPreviewFrame s)
                   (mFrameBufferSize (info s)) (mTotalPixels (info s) * 4)
                   (fst (mWhiteBalanceScale s)) (fst (snd (mWhiteBalanceScale s)))
                   (snd (snd (mWhiteBalanceScale s))) (mExposureCompensation s)
      in (select_res e = EXIT_THREAD \<longrightarrow>
            inWorkerThread e s = Some (False, s\<lparr>trace := trace s @ [sel]\<rparr>)) \<and>
         (select_res e = TIMEOUT \<longrightarrow>
            (\<exists>s' evs. inWorkerThread e s = Some (queryFrame_res e = NO_ERROR, s') \<and>
               trace s' = trace s @ [sel, pull] @ evs)) \<and>
         (select_res e = TIMEOUT \<and> queryFrame_res e = NO_ERROR \<longrightarrow>
            (\<exists>s'. inWorkerThread e s = Some (True, s') \<and>
               mCurFrameTimestamp s' = systemTime_res e \<and>
               mCurrentFrame (info s') =
                 map_option (\<lambda>old. queryFrame_frame e) (mCurrentFrame (info s)) \<and>
               trace s' = trace s @
                 [sel, pull, OnNextFrameAvailable (mCurrentFrame (info s')) (systemTime_res e)])) \<and>
         (\<forall>s'. inWorkerThread e s = Some (False, s') \<longrightarrow>
            select_res e = EXIT_THREAD \<or> queryFrame_res e \<noteq> NO_ERROR) \<and>
         (0 < sint (mEmulatedFPS s) \<longrightarrow>
            1000000 sdiv sint (mEmulatedFPS s) = 1000000 div sint (mEmulatedFPS s)))"
proof -
  have c1: "select_res e = EXIT_THREAD \<Longrightarrow>
      inWorkerThread e s = Some (False, s\<lparr>trace := trace s @
        [WorkerSelect (- 1) (1000000 sdiv sint (mEmulatedFPS s))]\<rparr>)"
    using assms by (simp add: inWorkerThread_def Let_def)
  have c2: "select_res e = TIMEOUT \<Longrightarrow>
      \<exists>s' evs. inWorkerThread e s = Some (queryFrame_res e = NO_ERROR, s') \<and>
        trace s' = trace s @
          [WorkerSelect (- 1) (1000000 sdiv sint (mEmulatedFPS s)),
           QueryFrame (mCurrentFrame (info s)) (mPreviewFrame s)
             (mFrameBufferSize (info s)) (mTotalPixels (info s) * 4)
             (fst (mWhiteBalanceScale s)) (fst (snd (mWhiteBalanceScale s)))
             (snd (snd (mWhiteBalanceScale s))) (mExposureCompensation s)] @ evs"
    using assms by (simp add: inWorkerThread_def Let_def)
  have c3: "select_res e = TIMEOUT \<and> queryFrame_res e = NO_ERROR \<Longrightarrow>
      \<exists>s'. inWorkerThread e s = Some (True, s') \<and>
        mCurFrameTimestamp s' = systemTime_res e \<and>
        mCurrentFrame (info s') =
          map_option (\<lambda>old. queryFrame_frame e) (mCurrentFrame (info s)) \<and>
        trace s' = trace s @
          [WorkerSelect (- 1) (1000000 sdiv sint (mEmulatedFPS s)),
           QueryFrame (mCurrentFrame (info s)) (mPreviewFrame s)
             (mFrameBufferSize (info s)) (mTotalPixels (info s) * 4)
             (fst (mWhiteBalanceScale s)) (fst (snd (mWhiteBalanceScale s)))
             (snd (snd (mWhiteBalanceScale s))) (mExposureCompensation s),
           OnNextFrameAvailable (mCurrentFrame (info s')) (systemTime_res e)]"
    using assms by (simp add: inWorkerThread_def Let_def)
  have c4: "\<forall>s'. inWorkerThread e s = Some (False, s') \<longrightarrow>
      select_res e = EXIT_THREAD \<or> queryFrame_res e \<noteq> NO_ERROR"
    using assms by (auto simp: inWorkerThread_def Let_def split: if_splits)
  have c5: "0 < sint (mEmulatedFPS s) \<Longrightarrow>
      1000000 sdiv sint (mEmulatedFPS s) = 1000000 div sint (mEmulatedFPS s)"
    by (simp add: signed_divide_int_def)
  from c1 c2 c3 c4 c5 show ?thesis unfolding Let_def by blast
qed

theorem inWorkerThread_pass_witness:
  "mEmulatedFPS dev_started \<noteq> 0 \<and>
   inWorkerThread frame_exit dev_started =
     Some (False, dev_started\<lparr>trace := trace dev_started @ [WorkerSelect (- 1) 20000]\<rparr>) \<and>
   (\<exists>s'. inWorkerThread frame_ok dev_started = Some (True, s') \<and>
      mCurFrameTimestamp s' = 1000 \<and>
      trace s' = trace dev_started @
        [WorkerSelect (- 1) 20000,
         QueryFrame (Some [0, 0, 0]) (Some [0, 0, 0, 0, 0, 0, 0, 0]) 3 8 1 1 1 0,
         OnNextFrameAvailable (Some [1, 2, 3]) 1000])"
proof -
  have h1: "mEmulatedFPS dev_started \<noteq> 0"
    by (simp add: dev_started_eq)
  have h2: "select_res frame_exit = EXIT_THREAD"
    by (simp add: frame_exit_def)
  have h3: "select_res frame_ok = TIMEOUT \<and> queryFrame_res frame_ok = NO_ERROR"
    by (simp add: frame_ok_def NO_ERROR_def)
  have fields: "1000000 sdiv sint (mEmulatedFPS dev_started) = 20000"
    "mCurrentFrame (info dev_started) = Some [0, 0, 0]"
    "mPreviewFrame dev_started = Some [0, 0, 0, 0, 0, 0, 0, 0]"
    "mFrameBufferSize (info dev_started) = 3"
    "mTotalPixels (info dev_started) * 4 = 8"
    "mWhiteBalanceScale dev_started = (1, 1, 1)"
    "mExposureCompensation dev_started = 0"
    "systemTime_res frame_ok = 1000"
    "queryFrame_frame frame_ok = [1, 2, 3]"
    by (simp_all add: dev_started_eq info1_def frame_ok_def signed_divide_int_def)
  from inWorkerThread_pass [OF h1, of frame_exit, unfolded Let_def] h2
  have c1: "inWorkerThread frame_exit dev_started =
     Some (False, dev_started\<lparr>trace := trace dev_started @
       [WorkerSelect (- 1) (1000000 sdiv sint (mEmulatedFPS dev_started))]\<rparr>)"
    by blast
  from inWorkerThread_pass [OF h1, of frame_ok, unfolded Let_def] h3
  have c3: "\<exists>s'. inWorkerThread frame_ok dev_started = Some (True, s') \<and>
       mCurFrameTimestamp s' = systemTime_res frame_ok \<and>
       mCurrentFrame (info s') =
         map_option (\<lambda>old. queryFrame_frame frame_ok) (mCurrentFrame (info dev_started)) \<and>
       trace s' = trace dev_started @
         [WorkerSelect (- 1) (1000000 sdiv sint (mEmulatedFPS dev_started)),
          QueryFrame (mCurrentFrame (info dev_started)) (mPreviewFrame dev_started)
            (mFrameBufferSize (info dev_started)) (mTotalPixels (info dev_started) * 4)
            (fst (mWhiteBalanceScale dev_started)) (fst (snd (mWhiteBalanceScale dev_started)))
            (snd (snd (mWhiteBalanceScale dev_started))) (mExposureCompensation dev_started),
          OnNextFrameAvailable (mCurrentFrame (info s')) (systemTime_res frame_ok)]"
    by blast
  from c3 obtain s' where s': "inWorkerThread frame_ok dev_started = Some (True, s')"
    "mCurFrameTimestamp s' = 1000"
    "mCurrentFrame (info s') = Some [1, 2, 3]"
    "trace s' = trace dev_started @
         [WorkerSelect (- 1) 20000,
          QueryFrame (Some [0, 0, 0]) (Some [0, 0, 0, 0, 0, 0, 0, 0]) 3 8 1 1 1 0,
          OnNextFrameAvailable (mCurrentFrame (info s')) 1000]"
    unfolding fields by auto
  from s' have "trace s' = trace dev_started @
         [WorkerSelect (- 1) 20000,
          QueryFrame (Some [0, 0, 0]) (Some [0, 0, 0, 0, 0, 0, 0, 0]) 3 8 1 1 1 0,
          OnNextFrameAvailable (Some [1, 2, 3]) 1000]"
    by simp
  with s'(1,2) c1 [unfolded fields] h1 show ?thesis by blast
qed

section \<open>A pull that fails\<close>

lemma workerLoop_ok_prefix:
  assumes "mEmulatedFPS s \<noteq> 0"
    and "list_all (\<lambda>x. select_res x \<noteq> EXIT_THREAD \<and> queryFrame_res x = NO_ERROR) pre"
  shows "\<exists>s1 evs. workerLoop (pre @ rest) s = workerLoop rest s1 \<and> mState s1 = mState s \<and>
           mEmulatedFPS s1 = mEmulatedFPS s \<and> trace s1 = trace s @ evs \<and>
           device_errors evs = [] \<and> length (timestamps evs) = length pre"
  using assms
proof (induction pre arbitrary: s)
  case Nil
  have "workerLoop ([] @ rest) s = workerLoop rest s \<and> mState s = mState s \<and>
      mEmulatedFPS s = mEmulatedFPS s \<and> trace s = trace s @ [] \<and>
      device_errors [] = [] \<and> length (timestamps []) = length ([] :: frame_env list)"
    by simp
  then show ?case by blast
next
  case (Cons x pre)
  from Cons.prems have x: "select_res x \<noteq> EXIT_THREAD" "queryFrame_res x = NO_ERROR"
    and pre: "list_all (\<lambda>x. select_res x \<noteq> EXIT_THREAD \<and> queryFrame_res x = NO_ERROR) pre"
    by simp_all
  from pass_ok [OF Cons.prems(1) x] obtain s' evs where
    p: "inWorkerThread x s = Some (True, s')" "mState s' = mState s"
       "mEmulatedFPS s' = mEmulatedFPS s" "trace s' = trace s @ evs"
       "device_errors evs = []" "timestamps evs = [systemTime_res x]"
    by blast
  from p(3) Cons.prems(1) have fps: "mEmulatedFPS s' \<noteq> 0" by simp
  from Cons.IH [OF fps pre] obtain s1 evs1 where
    r: "workerLoop (pre @ rest) s' = workerLoop rest s1" "mState s1 = mState s'"
       "mEmulatedFPS s1 = mEmulatedFPS s'" "trace s1 = trace s' @ evs1"
       "device_errors evs1 = []" "length (timestamps evs1) = length pre"
    by blast
  have "workerLoop ((x # pre) @ rest) s = workerLoop rest s1"
    using p(1) r(1) by simp
  moreover have "trace s1 = trace s @ (evs @ evs1)" using p(4) r(4) by simp
  moreover have "device_errors (evs @ evs1) = []"
    using p(5) r(5) by (simp add: device_errors_append)
  moreover have "length (timestamps (evs @ evs1)) = length (x # pre)"
    using p(6) r(6) by (simp add: timestamps_append)
  ultimately show ?case using p(2,3) r(2,3) by metis
qed

text \<open>
  Claim C5. A session of the worker thread in which the passes \<open>pre\<close> pull their
  frames and the next pass \<open>e\<close> finds the pull failing, for a frame rate that is not
  zero. The thread has stopped after \<open>e\<close>, whatever would have come next (\<open>post\<close>).
  The session's part of the trace ends with the device-error notification for a died
  server; before it there is no device-error notification and one frame-ready
  notification for each pass of \<open>pre\<close>: one error in all, and nothing after it. The
  device state is the one the session began in.
\<close>

theorem pull_failure_ends_session:
  assumes "mEmulatedFPS s \<noteq> 0"
    and "list_all (\<lambda>x. select_res x \<noteq> EXIT_THREAD \<and> queryFrame_res x = NO_ERROR) pre"
    and "select_res e \<noteq> EXIT_THREAD" and "queryFrame_res e \<noteq> NO_ERROR"
  shows "\<exists>s' evs. workerLoop (pre @ e # post) s = Some (False, s') \<and> mState s' = mState s \<and>
           trace s' = trace s @ evs @ [OnCameraDeviceError CAMERA_ERROR_SERVER_DIED] \<and>
           device_errors evs = [] \<and> length (timestamps evs) = length pre"
proof -
  from workerLoop_ok_prefix [OF assms(1,2), of "e # post"] obtain s1 evs1 where
    r: "workerLoop (pre @ e # post) s = workerLoop (e # post) s1" "mState s1 = mState s"
       "mEmulatedFPS s1 = mEmulatedFPS s" "trace s1 = trace s @ evs1"
       "device_errors evs1 = []" "length (timestamps evs1) = length pre"
    by blast
  from r(3) assms(1) have fps: "mEmulatedFPS s1 \<noteq> 0" by simp
  from pass_fail [OF fps assms(3,4)] obtain s' evs where
    p: "inWorkerThread e s1 = Some (False, s')" "mState s' = mState s1"
       "trace s' = trace s1 @ evs @ [OnCameraDeviceError CAMERA_ERROR_SERVER_DIED]"
       "device_errors evs = []" "timestamps evs = []"
    by blast
  have "workerLoop (pre @ e # post) s = Some (False, s')"
    using r(1) p(1) by simp
  moreover have "trace s' = trace s @ (evs1 @ evs) @ [OnCameraDeviceError CAMERA_ERROR_SERVER_DIED]"
    using r(4) p(3) by simp
  moreover have "device_errors (evs1 @ evs) = []"
    using r(5) p(4) by (simp add: device_errors_append)
  moreover have "length (timestamps (evs1 @ evs)) = length pre"
    using r(6) p(5) by (simp add: timestamps_append)
  ultimately show ?thesis using r(2) p(2) by metis
qed

theorem pull_failure_ends_session_witness:
  "mEmulatedFPS dev_started \<noteq> 0 \<and>
   list_all (\<lambda>x. select_res x \<noteq> EXIT_THREAD \<and> queryFrame_res x = NO_ERROR)
     [frame_ok, frame_ok2] \<and>
   select_res frame_fails \<noteq> EXIT_THREAD \<and>
   queryFrame_res frame_fails \<noteq> NO_ERROR \<and>
   (\<exists>s' evs. workerLoop ([frame_ok, frame_ok2] @ frame_fails # [frame_ok]) dev_started =
        Some (False, s') \<and>
      mState s' = mState dev_started \<and>
      trace s' = trace dev_started @ evs @ [OnCameraDeviceError CAMERA_ERROR_SERVER_DIED] \<and>
      device_errors evs = [] \<and> length (timestamps evs) = length [frame_ok, frame_ok2])"
proof -
  have h1: "mEmulatedFPS dev_started \<noteq> 0"
    by (simp add: dev_started_eq)
  have h2: "list_all (\<lambda>x. select_res x \<noteq> EXIT_THREAD \<and> queryFrame_res x = NO_ERROR)
     [frame_ok, frame_ok2]"
    by (simp add: frame_ok_def frame_ok2_def NO_ERROR_def)
  have h3: "select_res frame_fails \<noteq> EXIT_THREAD"
    by (simp add: frame_fails_def)
  have h4: "queryFrame_res frame_fails \<noteq> NO_ERROR"
    by (simp add: frame_fails_def NO_ERROR_def)
  from pull_failure_ends_session [OF h1 h2 h3 h4, of "[frame_ok]"] h1 h2 h3 h4
  show ?thesis by blast
qed

section \<open>Timestamps of the frames\<close>






section \<open>The lifecycle against the transition table\<close>

lemmas call_defs = Initialize_def EmulatedCameraDevice_Initialize_def connectDevice_def
  disconnectDevice_def startDevice_def stopDevice_def delete_array_def state_preds Let_def

lemma call_state:
  "abs_state (mState (snd (call c s))) = snd (table_step c (abs_state (mState s)))"
  by (cases c; cases "mState s") (simp_all add: call_defs status_defs)

lemma run_state: "abs_state (mState (run cs s)) = table_run cs (abs_state (mState s))"
  by (induction cs arbitrary: s) (simp_all add: call_state)

lemma call_forbidden:
  assumes "forbidden c (abs_state (mState s))"
  shows "(\<exists>evs. snd (call c s) = s\<lparr>trace := trace s @ evs\<rparr>) \<and>
         fst (call c s) =
           (if session_open_status c \<noteq> NO_ERROR then session_open_status c else EINVAL)"
proof -
  have "snd (call c s) = s\<lparr>trace := trace s @ drop (length (trace s)) (trace (snd (call c s)))\<rparr> \<and>
         fst (call c s) =
           (if session_open_status c \<noteq> NO_ERROR then session_open_status c else EINVAL)"
    using assms by (cases c; cases "mState s") (simp_all add: call_defs status_defs)
  then show ?thesis by blast
qed

lemma call_already_there:
  assumes "already_there c (abs_state (mState s))"
  shows "call c s = (NO_ERROR, s)"
  using assms by (cases c; cases "mState s") (simp_all add: call_defs status_defs)

lemma call_result:
  assumes "session_open_status c = NO_ERROR \<or> \<not> forbidden c (abs_state (mState s))"
  shows "fst (call c s) = status_of (fst (table_step c (abs_state (mState s))))"
  using assms by (cases c; cases "mState s") (simp_all add: call_defs status_defs)

lemma dev0_eq:
  "dev0 =
     \<lparr>mState = ECDS_CONSTRUCTED, info = info0, mCurFrameTimestamp = 0,
      mWhiteBalanceScale = (1, 1, 1), mExposureCompensation = 0, mEmulatedFPS = 50,
      mDeviceName = [], mPreviewFrame = None, trace = []\<rparr>"
  by (simp add: dev0_def base0_def EmulatedGenyCameraDevice_def)

text \<open>
  Claim C2 as the code has it. After every sequence of lifecycle calls the state of the
  device is the one the transition table reaches on the same calls. A call that the
  state forbids changes nothing of the device but the trace of calls made, and returns
  InvalidOperation, with one exception: Initialize on a device that is not
  Uninitialized opens the session to the remote service before any check, and when that
  fails it returns the status of the failed opening instead. A call that finds its goal
  already reached returns success and changes nothing, the trace included. Apart from
  that one exception, every call returns the result the table gives.
\<close>

theorem lifecycle_follows_table:
  "abs_state (mState (run cs s)) = table_run cs (abs_state (mState s)) \<and>
   (forbidden c (abs_state (mState s)) \<longrightarrow>
      (\<exists>evs. snd (call c s) = s\<lparr>trace := trace s @ evs\<rparr>) \<and>
      fst (call c s) =
        (if session_open_status c \<noteq> NO_ERROR then session_open_status c else EINVAL)) \<and>
   (already_there c (abs_state (mState s)) \<longrightarrow> call c s = (NO_ERROR, s)) \<and>
   (session_open_status c = NO_ERROR \<or> \<not> forbidden c (abs_state (mState s)) \<longrightarrow>
      fst (call c s) = status_of (fst (table_step c (abs_state (mState s)))))"
  using run_state call_forbidden call_already_there call_result by blast

theorem lifecycle_follows_table_witness:
  "abs_state (mState (run full_cycle dev0)) = Initialized \<and>
   forbidden (CallConnect 0) (abs_state (mState dev0)) \<and>
   fst (call (CallConnect 0) dev0) = EINVAL \<and>
   mState (snd (call (CallConnect 0) dev0)) = ECDS_CONSTRUCTED \<and>
   forbidden (CallInitialize init_ok ''cam'' 5555) (abs_state (mState dev_connected)) \<and>
   fst (call (CallInitialize init_ok ''cam'' 5555) dev_connected) = EINVAL \<and>
   mState (snd (call (CallInitialize init_ok ''cam'' 5555) dev_connected)) = ECDS_CONNECTED \<and>
   forbidden (CallInitialize init_unreachable ''cam'' 5555) (abs_state (mState dev_connected)) \<and>
   fst (call (CallInitialize init_unreachable ''cam'' 5555) dev_connected) = 111 \<and>
   mState (snd (call (CallInitialize init_unreachable ''cam'' 5555) dev_connected)) =
     ECDS_CONNECTED \<and>
   already_there (CallStart start_ok 2 1 7) (abs_state (mState dev_started)) \<and>
   call (CallStart start_ok 2 1 7) dev_started = (NO_ERROR, dev_started)"
proof -
  have t: "table_run full_cycle (abs_state (mState dev0)) = Initialized"
    by (simp add: full_cycle_def dev0_eq init_ok_def start_ok_def stop_ok_def NO_ERROR_def)
  have h1: "forbidden (CallConnect 0) (abs_state (mState dev0))"
    by (simp add: dev0_eq)
  have h2: "forbidden (CallInitialize init_ok ''cam'' 5555) (abs_state (mState dev_connected))"
    by (simp add: dev_connected_eq)
  have h3: "forbidden (CallInitialize init_unreachable ''cam'' 5555)
      (abs_state (mState dev_connected))"
    by (simp add: dev_connected_eq)
  have h4: "already_there (CallStart start_ok 2 1 7) (abs_state (mState dev_started))"
    by (simp add: dev_started_eq)
  have o: "session_open_status (CallConnect 0) = NO_ERROR"
    "session_open_status (CallInitialize init_ok ''cam'' 5555) = NO_ERROR"
    "session_open_status (CallInitialize init_unreachable ''cam'' 5555) = 111"
    "(111 :: int) \<noteq> NO_ERROR"
    by (simp_all add: init_ok_def init_unreachable_def NO_ERROR_def)
  have m0: "mState dev0 = ECDS_CONSTRUCTED" by (simp add: dev0_eq)
  have m1: "mState dev_connected = ECDS_CONNECTED" by (simp add: dev_connected_eq)
  from lifecycle_follows_table [where cs = full_cycle and s = dev0 and c = "CallConnect 0"] h1
  have c1: "abs_state (mState (run full_cycle dev0)) = table_run full_cycle (abs_state (mState dev0))"
    and c2: "\<exists>evs. snd (call (CallConnect 0) dev0) = dev0\<lparr>trace := trace dev0 @ evs\<rparr>"
    and c3: "fst (call (CallConnect 0) dev0) =
       (if session_open_status (CallConnect 0) \<noteq> NO_ERROR
        then session_open_status (CallConnect 0) else EINVAL)"
    by blast+
  from lifecycle_follows_table [where cs = "[]" and s = dev_connected
      and c = "CallInitialize init_ok ''cam'' 5555"] h2
  have c4: "\<exists>evs. snd (call (CallInitialize init_ok ''cam'' 5555) dev_connected) =
       dev_connected\<lparr>trace := trace dev_connected @ evs\<rparr>"
    and c5: "fst (call (CallInitialize init_ok ''cam'' 5555) dev_connected) =
       (if session_open_status (CallInitialize init_ok ''cam'' 5555) \<noteq> NO_ERROR
        then session_open_status (CallInitialize init_ok ''cam'' 5555) else EINVAL)"
    by blast+
  from lifecycle_follows_table [where cs = "[]" and s = dev_connected
      and c = "CallInitialize init_unreachable ''cam'' 5555"] h3
  have c6: "\<exists>evs. snd (call (CallInitialize init_unreachable ''cam'' 5555) dev_connected) =
       dev_connected\<lparr>trace := trace dev_connected @ evs\<rparr>"
    and c7: "fst (call (CallInitialize init_unreachable ''cam'' 5555) dev_connected) =
       (if session_open_status (CallInitialize init_unreachable ''cam'' 5555) \<noteq> NO_ERROR
        then session_open_status (CallInitialize init_unreachable ''cam'' 5555) else EINVAL)"
    by blast+
  from lifecycle_follows_table [where cs = "[]" and s = dev_started
      and c = "CallStart start_ok 2 1 7"] h4
  have c8: "call (CallStart start_ok 2 1 7) dev_started = (NO_ERROR, dev_started)"
    by blast
  have d1: "abs_state (mState (run full_cycle dev0)) = Initialized"
    using c1 t by simp
  have d2: "fst (call (CallConnect 0) dev0) = EINVAL"
    using c3 o(1) by simp
  from c2 obtain evs where "snd (call (CallConnect 0) dev0) = dev0\<lparr>trace := trace dev0 @ evs\<rparr>"
    by blast
  then have d3: "mState (snd (call (CallConnect 0) dev0)) = ECDS_CONSTRUCTED"
    using m0 by simp
  have d4: "fst (call (CallInitialize init_ok ''cam'' 5555) dev_connected) = EINVAL"
    using c5 o(2) by simp
  from c4 obtain evs where "snd (call (CallInitialize init_ok ''cam'' 5555) dev_connected) =
       dev_connected\<lparr>trace := trace dev_connected @ evs\<rparr>"
    by blast
  then have d5: "mState (snd (call (CallInitialize init_ok ''cam'' 5555) dev_connected)) =
      ECDS_CONNECTED"
    using m1 by simp
  have d6: "fst (call (CallInitialize init_unreachable ''cam'' 5555) dev_connected) = 111"
    using c7 o(3,4) by simp
  from c6 obtain evs where "snd (call (CallInitialize init_unreachable ''cam'' 5555) dev_connected) =
       dev_connected\<lparr>trace := trace dev_connected @ evs\<rparr>"
    by blast
  then have d7: "mState (snd (call (CallInitialize init_unreachable ''cam'' 5555) dev_connected)) =
      ECDS_CONNECTED"
    using m1 by simp
  from d1 h1 d2 d3 h2 d4 d5 h3 d6 d7 h4 c8 show ?thesis by blast
qed

text \<open>
  Claim C2 as stated fails: Initialize is forbidden on the initialized device of the
  small run, and with a remote service that cannot be reached it returns the status of
  the failed session opening, 111, which is not InvalidOperation.
\<close>

theorem initialize_twice_counterexample:
  "forbidden (CallInitialize init_unreachable ''cam'' 5555) (abs_state (mState dev_initialized)) \<and>
   fst (call (CallInitialize init_unreachable ''cam'' 5555) dev_initialized) = 111 \<and>
   fst (call (CallInitialize init_unreachable ''cam'' 5555) dev_initialized) \<noteq> EINVAL"
  by (simp add: dev_initialized_eq Initialize_def init_unreachable_def status_defs Let_def)

section \<open>The preview frame of a started device\<close>

lemma call_invariant:
  assumes "mState s = ECDS_STARTED \<longrightarrow> mPreviewFrame s \<noteq> None"
  shows "mState (snd (call c s)) = ECDS_STARTED \<longrightarrow> mPreviewFrame (snd (call c s)) \<noteq> None"
  using assms by (cases c; cases "mState s") (auto simp: call_defs status_defs)

lemma call_no_delete:
  "\<exists>evs. trace (snd (call c s)) = trace s @ evs \<and> DeletePreviewFrame \<notin> set evs"
  by (cases c; cases "mState s") (auto simp: call_defs status_defs split: option.splits)

lemma call_keeps_preview:
  assumes "\<not> is_start c"
  shows "mPreviewFrame (snd (call c s)) = mPreviewFrame s"
  using assms by (cases c; cases "mState s") (auto simp: call_defs status_defs split: option.splits)

lemma getDeviceInfo_frame:
  "mState (snd (getDeviceInfo q s)) = mState s \<and>
   mPreviewFrame (snd (getDeviceInfo q s)) = mPreviewFrame s \<and>
   (\<exists>evs. trace (snd (getDeviceInfo q s)) = trace s @ evs \<and> DeletePreviewFrame \<notin> set evs)"
  by (simp add: getDeviceInfo_def)

lemma exec_invariant:
  assumes "exec ops s = Some s'"
    and "mState s = ECDS_STARTED \<longrightarrow> mPreviewFrame s \<noteq> None"
    and "DeletePreviewFrame \<notin> set (trace s)"
  shows "(mState s' = ECDS_STARTED \<longrightarrow> mPreviewFrame s' \<noteq> None) \<and>
         DeletePreviewFrame \<notin> set (trace s')"
  using assms
proof (induction ops s rule: exec.induct)
  case (1 s)
  then show ?case by simp
next
  case (2 c ops s)
  from call_no_delete [of c s] "2.prems"(3)
  have "DeletePreviewFrame \<notin> set (trace (snd (call c s)))" by auto
  with "2.IH" "2.prems"(1) call_invariant [OF "2.prems"(2), of c] show ?case by simp
next
  case (3 q ops s)
  from getDeviceInfo_frame [of q s] "3.prems"(2,3)
  have "mState (snd (getDeviceInfo q s)) = ECDS_STARTED \<longrightarrow>
          mPreviewFrame (snd (getDeviceInfo q s)) \<noteq> None"
    and "DeletePreviewFrame \<notin> set (trace (snd (getDeviceInfo q s)))"
    by auto
  with "3.IH" "3.prems"(1) show ?case by simp
next
  case (4 e ops s)
  from "4.prems"(1) obtain g s1 where p: "inWorkerThread e s = Some (g, s1)"
    by (auto split: option.splits)
  from pass_any [OF p] "4.prems"(2,3)
  have "mState s1 = ECDS_STARTED \<longrightarrow> mPreviewFrame s1 \<noteq> None"
    and "DeletePreviewFrame \<notin> set (trace s1)"
    by auto
  with "4.IH" [OF p refl] "4.prems"(1) p show ?case by simp
qed

lemma constructed_invariant:
  "mState (EmulatedGenyCameraDevice b) \<noteq> ECDS_STARTED \<and>
   DeletePreviewFrame \<notin> set (trace (EmulatedGenyCameraDevice b))"
  by (simp add: EmulatedGenyCameraDevice_def)

lemma reachable_invariant:
  assumes "exec ops (EmulatedGenyCameraDevice b) = Some s"
  shows "(mState s = ECDS_STARTED \<longrightarrow> mPreviewFrame s \<noteq> None) \<and>
         DeletePreviewFrame \<notin> set (trace s)"
  using exec_invariant [OF assms] constructed_invariant [of b] by blast

lemma run_keeps_preview:
  assumes "list_all (\<lambda>c. \<not> is_start c) cs"
  shows "mPreviewFrame (run cs s) = mPreviewFrame s"
  using assms by (induction cs arbitrary: s) (simp_all add: call_keeps_preview)

lemma run_no_delete:
  assumes "DeletePreviewFrame \<notin> set (trace s)"
  shows "DeletePreviewFrame \<notin> set (trace (run cs s))"
  using assms
proof (induction cs arbitrary: s)
  case Nil
  then show ?case by simp
next
  case (Cons c cs)
  from call_no_delete [of c s] Cons.prems
  have "DeletePreviewFrame \<notin> set (trace (snd (call c s)))" by auto
  from Cons.IH [OF this] show ?case by simp
qed

lemma started_ops_eq: "exec started_ops (EmulatedGenyCameraDevice base0) = Some dev_started"
  by (simp add: started_ops_def dev_started_def dev_connected_def dev_initialized_def dev0_def)

text \<open>
  Claim C10. In every state that a device reaches from its construction, by lifecycle
  calls, information queries and passes of the worker thread in any order, a device that
  is Started has a preview frame pointer that is not null. Hence a pass of the worker
  thread on a started device that gets past its wait hands a non-null preview frame to
  the pull, and the pointer is not null after the pass either.
\<close>

theorem started_has_preview_frame:
  assumes "exec ops (EmulatedGenyCameraDevice b) = Some s" and "mState s = ECDS_STARTED"
  shows "mPreviewFrame s \<noteq> None \<and>
         (\<forall>e g s'. select_res e \<noteq> EXIT_THREAD \<and> inWorkerThread e s = Some (g, s') \<longrightarrow>
            (\<exists>p evs. mPreviewFrame s = Some p \<and> mPreviewFrame s' \<noteq> None \<and>
               trace s' = trace s @
                 [WorkerSelect (- 1) (1000000 sdiv sint (mEmulatedFPS s)),
                  QueryFrame (mCurrentFrame (info s)) (Some p)
                    (mFrameBufferSize (info s)) (mTotalPixels (info s) * 4)
                    (fst (mWhiteBalanceScale s)) (fst (snd (mWhiteBalanceScale s)))
                    (snd (snd (mWhiteBalanceScale s))) (mExposureCompensation s)] @ evs))"
proof -
  from reachable_invariant [OF assms(1)] assms(2) obtain p where p: "mPreviewFrame s = Some p"
    by auto
  have "\<exists>evs. mPreviewFrame s' \<noteq> None \<and>
               trace s' = trace s @
                 [WorkerSelect (- 1) (1000000 sdiv sint (mEmulatedFPS s)),
                  QueryFrame (mCurrentFrame (info s)) (Some p)
                    (mFrameBufferSize (info s)) (mTotalPixels (info s) * 4)
                    (fst (mWhiteBalanceScale s)) (fst (snd (mWhiteBalanceScale s)))
                    (snd (snd (mWhiteBalanceScale s))) (mExposureCompensation s)] @ evs"
    if "select_res e \<noteq> EXIT_THREAD" and "inWorkerThread e s = Some (g, s')" for e g s'
    using that p by (auto simp: inWorkerThread_def Let_def split: if_splits)
  with p show ?thesis by blast
qed

theorem started_has_preview_frame_witness:
  "exec started_ops (EmulatedGenyCameraDevice base0) = Some dev_started \<and>
   mState dev_started = ECDS_STARTED \<and>
   mPreviewFrame dev_started \<noteq> None \<and>
   (\<exists>s' p evs. inWorkerThread frame_ok dev_started = Some (True, s') \<and>
      mPreviewFrame dev_started = Some p \<and> mPreviewFrame s' \<noteq> None \<and>
      trace s' = trace dev_started @
        [WorkerSelect (- 1) (1000000 sdiv sint (mEmulatedFPS dev_started)),
         QueryFrame (mCurrentFrame (info dev_started)) (Some p)
           (mFrameBufferSize (info dev_started)) (mTotalPixels (info dev_started) * 4)
           (fst (mWhiteBalanceScale dev_started)) (fst (snd (mWhiteBalanceScale dev_started)))
           (snd (snd (mWhiteBalanceScale dev_started))) (mExposureCompensation dev_started)] @ evs)"
proof -
  have h2: "mState dev_started = ECDS_STARTED"
    by (simp add: dev_started_eq)
  have fps: "mEmulatedFPS dev_started \<noteq> 0"
    by (simp add: dev_started_eq)
  have sel: "select_res frame_ok \<noteq> EXIT_THREAD" and ok: "queryFrame_res frame_ok = NO_ERROR"
    by (simp_all add: frame_ok_def NO_ERROR_def)
  from pass_ok [OF fps sel ok] obtain s' where
    p: "inWorkerThread frame_ok dev_started = Some (True, s')"
    by blast
  from started_has_preview_frame [OF started_ops_eq h2] sel p started_ops_eq h2
  show ?thesis by blast
qed

section \<open>The preview frame after Stop\<close>

lemma dev_streaming_pass:
  "inWorkerThread frame_ok dev_started = Some (True, dev_streaming)"
  by (simp add: dev_streaming_def dev_started_eq inWorkerThread_def frame_ok_def NO_ERROR_def
      Let_def)

lemma dev_streaming_eq:
  "dev_streaming =
     \<lparr>mState = ECDS_STARTED,
      info = \<lparr>mFrameWidth = 2, mFrameHeight = 1, mPixelFormat = 7, mTotalPixels = 2,
               mFrameBufferSize = 3, mCurrentFrame = Some [1, 2, 3]\<rparr>,
      mCurFrameTimestamp = 1000,
      mWhiteBalanceScale = (1, 1, 1), mExposureCompensation = 0, mEmulatedFPS = 50,
      mDeviceName = ''cam'', mPreviewFrame = Some [1, 2, 3, 4, 5, 6, 7, 8],
      trace = [ConnectClient 5555, BaseInitialize, QueryConnect,
               CommonStartDevice 2 1 7, NewPreviewFrame 2, QueryStart 7 2 1,
               WorkerSelect (- 1) 20000,
               QueryFrame (Some [0, 0, 0]) (Some [0, 0, 0, 0, 0, 0, 0, 0]) 3 8 1 1 1 0,
               OnNextFrameAvailable (Some [1, 2, 3]) 1000]\<rparr>"
  by (simp add: dev_streaming_def dev_started_eq inWorkerThread_def frame_ok_def info1_def
      NO_ERROR_def Let_def signed_divide_int_def)

lemma streaming_ops_eq:
  "exec (started_ops @ [WorkerPass frame_ok]) (EmulatedGenyCameraDevice base0) = Some dev_streaming"
proof -
  have "exec (started_ops @ [WorkerPass frame_ok]) (EmulatedGenyCameraDevice base0) =
      exec [WorkerPass frame_ok] dev_started"
    by (simp add: started_ops_def dev_started_def dev_connected_def dev_initialized_def dev0_def)
  then show ?thesis using dev_streaming_pass by simp
qed

text \<open>
  Claim C9 as the code has it. Take a device reached from its construction that is
  Started, a Stop of it that succeeds, and any lifecycle calls after it that are not a
  Start. The device is Connected after the Stop, and after all these calls the preview
  frame pointer is not null and is what it was before the Stop, buffer and contents. No
  release of the buffer has happened at any point since the construction; the destructor
  releases it. A call of \<^verbatim>\<open>getCurrentPreviewFrame\<close> after these calls does not go to
  the base class: it returns 0 and copies the first bytes of that buffer, as many as four
  times the pixel count that the base class's stop bookkeeping has left (for arrays of
  that length at least, as the copy requires). That is the whole last frame when the
  bookkeeping has kept the pixel count, and no byte at all when it has reset the count.
\<close>

theorem preview_frame_survives_stop:
  assumes "exec ops (EmulatedGenyCameraDevice b) = Some s" and "mState s = ECDS_STARTED"
    and "fst (stopDevice e s) = NO_ERROR" and "list_all (\<lambda>c. \<not> is_start c) cs"
  shows "mState (snd (stopDevice e s)) = ECDS_CONNECTED \<and>
         mPreviewFrame s \<noteq> None \<and>
         mPreviewFrame (run cs (snd (stopDevice e s))) = mPreviewFrame s \<and>
         DeletePreviewFrame \<notin> set (trace (run cs (snd (stopDevice e s)))) \<and>
         DeletePreviewFrame \<in> set (trace (destructor (run cs (snd (stopDevice e s))))) \<and>
         (\<forall>p n base_res buffer.
            mPreviewFrame s = Some p \<and>
            n = unat (mTotalPixels (info (run cs (snd (stopDevice e s)))) * 4) \<and>
            n \<le> length p \<and> n \<le> length buffer \<longrightarrow>
              getCurrentPreviewFrame base_res buffer (run cs (snd (stopDevice e s))) =
                Some (0, take n p @ drop n buffer))"
proof -
  let ?s1 = "snd (stopDevice e s)"
  let ?s2 = "run cs ?s1"
  from reachable_invariant [OF assms(1)] assms(2)
  have pf: "mPreviewFrame s \<noteq> None" and nd: "DeletePreviewFrame \<notin> set (trace s)"
    by auto
  have st: "mState ?s1 = ECDS_CONNECTED"
    using assms(2,3) by (auto simp: stopDevice_def isStarted_def Let_def split: if_splits)
  have k1: "mPreviewFrame ?s1 = mPreviewFrame s"
    using call_keeps_preview [of "CallStop e" s] by simp
  have k2: "mPreviewFrame ?s2 = mPreviewFrame s"
    using run_keeps_preview [OF assms(4), of ?s1] k1 by simp
  have "DeletePreviewFrame \<notin> set (trace ?s1)"
    using call_no_delete [of "CallStop e" s] nd by auto
  then have n2: "DeletePreviewFrame \<notin> set (trace ?s2)"
    by (rule run_no_delete)
  have d: "DeletePreviewFrame \<in> set (trace (destructor ?s2))"
    using k2 pf by (auto simp: destructor_def delete_array_def)
  have g: "getCurrentPreviewFrame base_res buffer ?s2 = Some (0, take n p @ drop n buffer)"
    if "mPreviewFrame s = Some p" and "n = unat (mTotalPixels (info ?s2) * 4)"
      and "n \<le> length p" and "n \<le> length buffer" for p n base_res buffer
    using that k2 by (simp add: getCurrentPreviewFrame_def memcpy_def)
  from st pf k2 n2 d g show ?thesis by blast
qed

theorem preview_frame_survives_stop_witness:
  "exec (started_ops @ [WorkerPass frame_ok]) (EmulatedGenyCameraDevice base0) =
     Some dev_streaming \<and>
   mState dev_streaming = ECDS_STARTED \<and>
   fst (stopDevice stop_keep dev_streaming) = NO_ERROR \<and>
   list_all (\<lambda>c. \<not> is_start c) [CallDisconnect 0, CallConnect 0] \<and>
   mPreviewFrame (run [CallDisconnect 0, CallConnect 0] (snd (stopDevice stop_keep dev_streaming))) =
     Some [1, 2, 3, 4, 5, 6, 7, 8] \<and>
   DeletePreviewFrame \<notin>
     set (trace (run [CallDisconnect 0, CallConnect 0] (snd (stopDevice stop_keep dev_streaming)))) \<and>
   DeletePreviewFrame \<in>
     set (trace (destructor
       (run [CallDisconnect 0, CallConnect 0] (snd (stopDevice stop_keep dev_streaming))))) \<and>
   getCurrentPreviewFrame (22, []) [9, 9, 9, 9, 9, 9, 9, 9, 9]
       (run [CallDisconnect 0, CallConnect 0] (snd (stopDevice stop_keep dev_streaming))) =
     Some (0, [1, 2, 3, 4, 5, 6, 7, 8, 9])"
proof -
  let ?cs = "[CallDisconnect 0, CallConnect 0]"
  let ?s2 = "run ?cs (snd (stopDevice stop_keep dev_streaming))"
  have h2: "mState dev_streaming = ECDS_STARTED"
    by (simp add: dev_streaming_eq)
  have h3: "fst (stopDevice stop_keep dev_streaming) = NO_ERROR"
    by (simp add: dev_streaming_eq stopDevice_def isStarted_def stop_keep_def NO_ERROR_def Let_def)
  have h4: "list_all (\<lambda>c. \<not> is_start c) ?cs"
    by simp
  have pf: "mPreviewFrame dev_streaming = Some [1, 2, 3, 4, 5, 6, 7, 8]"
    by (simp add: dev_streaming_eq)
  have n: "unat (mTotalPixels (info ?s2) * 4) = 8"
    by (simp add: dev_streaming_eq stopDevice_def disconnectDevice_def connectDevice_def
        state_preds stop_keep_def info1_def NO_ERROR_def Let_def delete_array_def)
  note t = preview_frame_survives_stop [OF streaming_ops_eq h2 h3 h4]
  from t have c3: "mPreviewFrame ?s2 = mPreviewFrame dev_streaming"
    and c4: "DeletePreviewFrame \<notin> set (trace ?s2)"
    and c5: "DeletePreviewFrame \<in> set (trace (destructor ?s2))"
    by blast+
  from t have "mPreviewFrame dev_streaming = Some [1, 2, 3, 4, 5, 6, 7, 8] \<and>
      8 = unat (mTotalPixels (info ?s2) * 4) \<and>
      8 \<le> length [1 :: byte, 2, 3, 4, 5, 6, 7, 8] \<and>
      8 \<le> length [9 :: byte, 9, 9, 9, 9, 9, 9, 9, 9] \<longrightarrow>
        getCurrentPreviewFrame (22, []) [9, 9, 9, 9, 9, 9, 9, 9, 9] ?s2 =
          Some (0, take 8 [1, 2, 3, 4, 5, 6, 7, 8] @ drop 8 [9, 9, 9, 9, 9, 9, 9, 9, 9])"
    by blast
  then have c6: "getCurrentPreviewFrame (22, []) [9, 9, 9, 9, 9, 9, 9, 9, 9] ?s2 =
      Some (0, [1, 2, 3, 4, 5, 6, 7, 8, 9])"
    using pf n by simp
  from streaming_ops_eq h2 h3 h4 c3 [unfolded pf] c4 c5 c6 show ?thesis by blast
qed

text \<open>
  Claim C9 as stated fails in its copy: stop the started device that holds the frame
  1 to 8, with a base class whose stop bookkeeping resets the pixel count to 0. The Stop
  succeeds and the preview frame pointer still holds that frame, but
  \<^verbatim>\<open>getCurrentPreviewFrame\<close> returns 0 with the destination as it was: the last
  frame is not copied.
\<close>

theorem stop_resets_geometry_counterexample:
  "mState dev_streaming = ECDS_STARTED \<and>
   mPreviewFrame dev_streaming = Some [1, 2, 3, 4, 5, 6, 7, 8] \<and>
   fst (stopDevice stop_ok dev_streaming) = NO_ERROR \<and>
   mPreviewFrame (snd (stopDevice stop_ok dev_streaming)) = Some [1, 2, 3, 4, 5, 6, 7, 8] \<and>
   getCurrentPreviewFrame (22, []) [9, 9, 9, 9, 9, 9, 9, 9, 9]
       (snd (stopDevice stop_ok dev_streaming)) =
     Some (0, [9, 9, 9, 9, 9, 9, 9, 9, 9])"
  by (simp add: dev_streaming_eq stopDevice_def isStarted_def stop_ok_def info0_def
      getCurrentPreviewFrame_def memcpy_def NO_ERROR_def Let_def)

end
